theory Spec2Isabelle
  imports Main
begin

section \<open>JavaScript values\<close>

text \<open>
  The values that reach the logger: call arguments, hook results, meta properties.
  Numbers are the integer-valued ones. An error object carries the text of its
  \<open>toString()\<close> and its \<open>stack\<close>; a plain object and a function are opaque
  (an identity, a source text).
\<close>

datatype jsval =
    JUndefined
  | JNull
  | JBool bool
  | JNum int
  | JStr string
  | JArr "jsval list"
  | JError string string
  | JObj nat
  | JFunc string

text \<open>\<open>typeof v\<close>.\<close>

fun typeofJS :: "jsval \<Rightarrow> string" where
  "typeofJS JUndefined = ''undefined''"
| "typeofJS JNull = ''object''"
| "typeofJS (JBool _) = ''boolean''"
| "typeofJS (JNum _) = ''number''"
| "typeofJS (JStr _) = ''string''"
| "typeofJS (JArr _) = ''object''"
| "typeofJS (JError _ _) = ''object''"
| "typeofJS (JObj _) = ''object''"
| "typeofJS (JFunc _) = ''function''"

text \<open>\<open>Array.isArray(v)\<close>.\<close>

fun arrayIsArray :: "jsval \<Rightarrow> bool" where
  "arrayIsArray (JArr _) = True"
| "arrayIsArray _ = False"

text \<open>The test \<open>res === undefined || res === null\<close> of both hook loops.\<close>

definition nullish :: "jsval \<Rightarrow> bool" where
  "nullish v = (v = JUndefined \<or> v = JNull)"

text \<open>Truthiness, as \<open>if (v)\<close>, \<open>v || d\<close> and \<open>v ? a : b\<close> test it.\<close>

fun truthy :: "jsval \<Rightarrow> bool" where
  "truthy JUndefined = False"
| "truthy JNull = False"
| "truthy (JBool b) = b"
| "truthy (JNum n) = (n \<noteq> 0)"
| "truthy (JStr s) = (s \<noteq> [])"
| "truthy _ = True"

text \<open>Decimal text of a number.\<close>

definition digitChar :: "nat \<Rightarrow> char" where
  "digitChar d = ''0123456789'' ! d"

fun showNat :: "nat \<Rightarrow> string" where
  "showNat n = (if n < 10 then [digitChar n] else showNat (n div 10) @ [digitChar (n mod 10)])"

definition showInt :: "int \<Rightarrow> string" where
  "showInt i = (if i < 0 then CHR ''-'' # showNat (nat (- i)) else showNat (nat i))"

text \<open>\<open>xs.join(sep)\<close> on strings.\<close>

fun joinStrings :: "string \<Rightarrow> string list \<Rightarrow> string" where
  "joinStrings sep [] = []"
| "joinStrings sep [x] = x"
| "joinStrings sep (x # y # ys) = x @ sep @ joinStrings sep (y # ys)"

text \<open>
  \<open>String(v)\<close>, which is \<open>v.toString()\<close> where that exists. An array joins its
  elements with a comma, an undefined or null element giving the empty string.
\<close>

fun jsToString :: "jsval \<Rightarrow> string" where
  "jsToString JUndefined = ''undefined''"
| "jsToString JNull = ''null''"
| "jsToString (JBool b) = (if b then ''true'' else ''false'')"
| "jsToString (JNum n) = showInt n"
| "jsToString (JStr s) = s"
| "jsToString (JArr xs) =
     joinStrings '','' (map (\<lambda>x. if x = JUndefined \<or> x = JNull then [] else jsToString x) xs)"
| "jsToString (JError msg st) = msg"
| "jsToString (JObj _) = ''[object Object]''"
| "jsToString (JFunc src) = src"

text \<open>\<open>text.join(sep)\<close> on an array of any values.\<close>

definition arrayJoin :: "string \<Rightarrow> jsval list \<Rightarrow> string" where
  "arrayJoin sep xs = joinStrings sep (map (\<lambda>x. if nullish x then [] else jsToString x) xs)"

text \<open>The elements that \<open>text.push(...res)\<close> spreads.\<close>

fun spread :: "jsval \<Rightarrow> jsval list" where
  "spread (JArr xs) = xs"
| "spread v = [v]"

definition newline :: string where
  "newline = [CHR 0x0A]"

definition apostrophe :: string where
  "apostrophe = [CHR 0x27]"

text \<open>An object with string keys: \<open>o[k]\<close> is \<open>getProp o k\<close>, undefined where absent.\<close>

type_synonym jsobject = "string \<rightharpoonup> jsval"

definition getProp :: "jsobject \<Rightarrow> string \<Rightarrow> jsval" where
  "getProp obj k = (case obj k of None \<Rightarrow> JUndefined | Some v \<Rightarrow> v)"

text \<open>\<open>Object.assign(target, src)\<close>: every own property of \<open>src\<close> overwrites.\<close>

definition objectAssign :: "jsobject \<Rightarrow> jsobject \<Rightarrow> jsobject" where
  "objectAssign target src = target ++ src"

section \<open>Levels, configuration and the logger object\<close>

text \<open>
  A chalk colour chain such as \<open>chalk.black.bgYellow\<close> is the list of its style names;
  the environment below renders it.
\<close>

datatype chalkStyle =
    Red | Black | Green | Magenta | Cyan | Bold
  | BgBlack | BgRed | BgYellow | BgBlue | BgGreen | BgCyan | BgWhite

text \<open>
  Class \<open>LogLevel\<close>. \<open>position\<close> is undefined (\<open>None\<close>) until \<open>setLevels\<close> assigns it.
\<close>

record LogLevel =
  name :: string
  color :: "chalkStyle list"
  err :: bool
  trace :: bool
  aliases :: "string list"
  position :: "nat option"

text \<open>\<open>new LogLevel(name, color)\<close> and its chained setters.\<close>

definition newLogLevel :: "string \<Rightarrow> chalkStyle list \<Rightarrow> LogLevel" where
  "newLogLevel n c =
     \<lparr>name = n, color = c, err = False, trace = False, aliases = [], position = None\<rparr>"

definition setError :: "LogLevel \<Rightarrow> LogLevel" where
  "setError l = l\<lparr>err := True\<rparr>"

definition setTrace :: "LogLevel \<Rightarrow> LogLevel" where
  "setTrace l = l\<lparr>trace := True\<rparr>"

definition setAliases :: "string list \<Rightarrow> LogLevel \<Rightarrow> LogLevel" where
  "setAliases as l = l\<lparr>aliases := as\<rparr>"

text \<open>The static getter \<open>CatLoggr.DefaultLevels\<close>.\<close>

definition DefaultLevels :: "LogLevel list" where
  "DefaultLevels =
     [setError (newLogLevel ''fatal'' [Red, BgBlack]),
      setError (newLogLevel ''error'' [Black, BgRed]),
      setError (newLogLevel ''warn'' [Black, BgYellow]),
      setTrace (newLogLevel ''trace'' [Green, BgBlack]),
      newLogLevel ''init'' [Black, BgBlue],
      newLogLevel ''info'' [Black, BgGreen],
      newLogLevel ''verbose'' [Black, BgCyan],
      setAliases [''log'', ''dir''] (newLogLevel ''debug'' [Magenta, BgBlack])]"

text \<open>
  The argument of \<open>setLevels\<close>: an array of level objects, an empty array included
  (\<open>LevelArr\<close>), or a value that is not an array (\<open>NonArray\<close>, such as the bare
  string of the test suite). The level objects of one array are distinct objects,
  created for the call, as in every call of the repository.
\<close>

datatype levelsArg = LevelArr "LogLevel list" | NonArray jsval

fun isLevelArray :: "levelsArg \<Rightarrow> bool" where
  "isLevelArray (LevelArr _) = True"
| "isLevelArray (NonArray _) = False"

text \<open>
  The argument of \<open>setDefaultMeta\<close>: an object with its own properties, or any
  other value.
\<close>

datatype metaArg = MetaObject jsobject | MetaValue jsval

fun typeofMeta :: "metaArg \<Rightarrow> string" where
  "typeofMeta (MetaObject _) = ''object''"
| "typeofMeta (MetaValue v) = typeofJS v"

datatype stream = ProcessStdout | ProcessStderr | CustomStream nat

text \<open>Class \<open>LoggrConfig\<close>; an option that was not given is undefined.\<close>

record LoggrConfig =
  config_shardId :: jsval
  config_shardLength :: "int option"
  config_level :: jsval
  config_levels :: "levelsArg option"
  config_meta :: "metaArg option"
  config_stdout :: "stream option"
  config_stderr :: "stream option"

text \<open>\<open>new LoggrConfig({})\<close>.\<close>

definition emptyConfig :: LoggrConfig where
  "emptyConfig =
     \<lparr>config_shardId = JUndefined, config_shardLength = None, config_level = JUndefined,
      config_levels = None, config_meta = None, config_stdout = None, config_stderr = None\<rparr>"

text \<open>
  The object a post-hook receives: \<open>{text, date, timestamp, shard, level, error}\<close>.
\<close>

record postParams =
  p_text :: string
  p_date :: nat
  p_timestamp :: string
  p_shard :: "string option"
  p_level :: string
  p_error :: bool

text \<open>
  A hook is a function of what it receives, one that returns: it does not throw and
  does not call the logger. An arg-hook receives \<open>{arg, date}\<close>. Whatever was
  pushed on a hook list is either a function or not, which both loops test with
  \<open>typeof hook == 'function'\<close>.
\<close>

type_synonym ArgHookCallback = "jsval \<Rightarrow> nat \<Rightarrow> jsval"
type_synonym PostHookCallback = "postParams \<Rightarrow> jsval"

datatype 'f hookEntry = IsFunction 'f | NotFunction


text \<open>
  What a call does outside the object: a write on a stream, which is taken to
  succeed, and the call of the \<open>i\<close>-th registered hook with its parameters.
\<close>

datatype event =
    StreamWrite stream string
  | ArgHookCall nat jsval nat
  | PostHookCall nat postParams




text \<open>
  The fields of a \<open>CatLoggr\<close> instance, \<open>this._shard\<close> as \<open>this_shard\<close>. The level
  functions that \<open>setLevels\<close> binds on the instance (\<open>this[l.name] = func\<close>, each
  closing over its level object) are the map \<open>this_bound\<close>. \<open>effects\<close> is the
  sequence of events so far. \<open>this_levelMap\<close> holds the own properties of the
  object \<open>_levelMap\<close>, those \<open>setLevels\<close> entered; a read of \<open>_levelMap[k]\<close>
  also finds what a plain object inherits (\<open>levelMapGet\<close> below). The names of
  levels and aliases are taken not to be names of members of the class, nor
  \<open>__proto__\<close>.
\<close>

record CatLoggr =
  this_shard :: jsval
  this_shardLength :: "int option"
  this_levelName :: "string option"
  this_levels :: "LogLevel list"
  this_levelMap :: "string \<rightharpoonup> LogLevel"
  this_meta :: jsobject
  this_defaultMeta :: jsobject
  this_stdout :: stream
  this_stderr :: stream
  this_maxLength :: "int option"
  this_hooks_arg :: "ArgHookCallback hookEntry list"
  this_hooks_post :: "PostHookCallback hookEntry list"
  this_bound :: "string \<rightharpoonup> LogLevel"
  effects :: "event list"

text \<open>
  A method returns \<open>this\<close> or undefined, or throws; each time the object is left in
  some state.
\<close>

datatype jsError = TypeError string | Error string

datatype retval = This | Undefined

datatype outcome = Returned retval CatLoggr | Threw jsError CatLoggr

fun andThen :: "outcome \<Rightarrow> (CatLoggr \<Rightarrow> outcome) \<Rightarrow> outcome" where
  "andThen (Returned _ s) f = f s"
| "andThen (Threw e s) f = Threw e s"

section \<open>The environment\<close>

text \<open>
  The libraries and the runtime the logger calls: chalk, \<open>util.format\<close>,
  \<open>util.inspect\<close>, and what one call reads from outside, namely \<open>moment()\<close> in
  \<open>_format\<close>, \<open>moment()\<close> in \<open>_write\<close>, and the stack of \<open>new Error()\<close>.
\<close>

record clockReading =
  toDate :: nat
  formatMMDD :: string

record env =
  chalk :: "chalkStyle list \<Rightarrow> string \<Rightarrow> string"
  utilFormat :: "string \<Rightarrow> jsval list \<Rightarrow> string"
  utilInspect :: "jsval \<Rightarrow> jsobject \<Rightarrow> string"
  momentInFormat :: clockReading
  momentInWrite :: clockReading
  newErrorStack :: string

record timestampT =
  raw :: nat
  formatted :: string
  formattedRaw :: string

text \<open>The getter \<open>_timestamp\<close>, on a reading of the clock.\<close>

definition timestampGetter :: "env \<Rightarrow> clockReading \<Rightarrow> timestampT" where
  "timestampGetter e ts =
     (let formatted' = formatMMDD ts in
      \<lparr>raw = toDate ts,
       formatted = chalk e [Black, BgWhite] ('' '' @ formatted' @ '' ''),
       formattedRaw = formatted'\<rparr>)"

section \<open>The level registry\<close>

text \<open>
  \<open>_levelMap\<close> is created as \<open>{}\<close>, a plain object, so a read of
  \<open>_levelMap[k]\<close> gives the level entered under \<open>k\<close> if there is one, and
  otherwise the member of that name which every plain object inherits from
  \<open>Object.prototype\<close>, if there is one: a function, or the prototype itself for
  \<open>__proto__\<close>. Such a member is truthy and has no property \<open>position\<close>.
\<close>

definition objectPrototypeKeys :: "string list" where
  "objectPrototypeKeys =
     [''constructor'', ''__defineGetter__'', ''__defineSetter__'', ''hasOwnProperty'',
      ''__lookupGetter__'', ''__lookupSetter__'', ''isPrototypeOf'',
      ''propertyIsEnumerable'', ''toString'', ''valueOf'', ''__proto__'',
      ''toLocaleString'']"

datatype member = OwnLevel LogLevel | Inherited

definition levelMapGet :: "(string \<rightharpoonup> LogLevel) \<Rightarrow> string \<Rightarrow> member option" where
  "levelMapGet m k =
     (case m k of
        Some l \<Rightarrow> Some (OwnLevel l)
      | None \<Rightarrow> if k \<in> set objectPrototypeKeys then Some Inherited else None)"

text \<open>\<open>x.position\<close> for what such a read gave.\<close>

fun memberPosition :: "member \<Rightarrow> nat option" where
  "memberPosition (OwnLevel l) = position l"
| "memberPosition Inherited = None"

text \<open>The message of the TypeError thrown by a read of a property of undefined.\<close>

definition cannotRead :: "string \<Rightarrow> string" where
  "cannotRead prop =
     ''Cannot read properties of undefined (reading '' @ apostrophe @ prop @ apostrophe @ '')''"

text \<open>A property key: \<open>o[undefined]\<close> reads the key \<open>"undefined"\<close>.\<close>

fun propKey :: "string option \<Rightarrow> string" where
  "propKey None = ''undefined''"
| "propKey (Some k) = k"

text \<open>\<open>xs[xs.length - 1]\<close>, undefined on an empty array.\<close>

definition lastElem :: "'a list \<Rightarrow> 'a option" where
  "lastElem xs = (if xs = [] then None else Some (last xs))"

text \<open>\<open>for (const alias of l.aliases) this[alias] = func\<close>.\<close>

fun bindAliases :: "string list \<Rightarrow> LogLevel \<Rightarrow> (string \<rightharpoonup> LogLevel) \<Rightarrow> (string \<rightharpoonup> LogLevel)" where
  "bindAliases [] l b = b"
| "bindAliases (a # as) l b = bindAliases as l (b(a \<mapsto> l))"

text \<open>
  The callback of \<open>this._levels.map\<close> in \<open>setLevels\<close>, run over the array from
  index \<open>i\<close> with the running \<open>max\<close>: it gives the level its position (its index, the
  objects being distinct), enters it in the map under its name only, binds the level
  function under the name and under each alias, and updates \<open>max\<close>.
\<close>

fun mapLevels :: "LogLevel list \<Rightarrow> nat \<Rightarrow> CatLoggr \<Rightarrow> nat \<Rightarrow> LogLevel list \<times> CatLoggr \<times> nat" where
  "mapLevels [] i s mx = ([], s, mx)"
| "mapLevels (l0 # ls) i s mx =
     (let l = l0\<lparr>position := Some i\<rparr>;
          s1 = s\<lparr>this_levelMap := (this_levelMap s)(name l \<mapsto> l)\<rparr>;
          s2 = s1\<lparr>this_bound := (this_bound s1)(name l \<mapsto> l)\<rparr>;
          s3 = s2\<lparr>this_bound := bindAliases (aliases l) l (this_bound s2)\<rparr>;
          mx' = (if length (name l) > mx then length (name l) else mx)
      in case mapLevels ls (Suc i) s3 mx' of
           (out, s', m) \<Rightarrow> (l # out, s', m))"

fun levelObjects :: "levelsArg \<Rightarrow> LogLevel list" where
  "levelObjects (LevelArr ls) = ls"
| "levelObjects (NonArray _) = []"

text \<open>
  \<open>setLevels(levels)\<close>. Where \<open>_levelMap[_levelName]\<close> is falsy, reading \<open>.name\<close>
  of the last element throws a TypeError when the array is empty; the assignment of
  \<open>_maxLength\<close> comes after it.
\<close>

definition setLevels :: "CatLoggr \<Rightarrow> levelsArg \<Rightarrow> outcome" where
  "setLevels s levels' =
     (if \<not> isLevelArray levels' then Threw (TypeError ''levels must be an array.'') s
      else
        let s1 = s\<lparr>this_levelMap := Map.empty\<rparr>;
            s2 = s1\<lparr>this_levels := levelObjects levels'\<rparr>
        in case mapLevels (this_levels s2) 0 s2 0 of
             (mapped, s3, mx) \<Rightarrow>
               let s4 = s3\<lparr>this_levels := mapped\<rparr> in
               if levelMapGet (this_levelMap s4) (propKey (this_levelName s4)) = None then
                 (case lastElem (this_levels s4) of
                    None \<Rightarrow> Threw (TypeError (cannotRead ''name'')) s4
                  | Some l \<Rightarrow>
                      Returned This (s4\<lparr>this_levelName := Some (name l),
                                         this_maxLength := Some (int mx + 2)\<rparr>))
               else Returned This (s4\<lparr>this_maxLength := Some (int mx + 2)\<rparr>))"

text \<open>\<open>setLevel(level)\<close>.\<close>

definition setLevel :: "CatLoggr \<Rightarrow> jsval \<Rightarrow> outcome" where
  "setLevel s level' =
     (if typeofJS level' \<noteq> ''string'' then Threw (TypeError ''level must be a string'') s
      else if levelMapGet (this_levelMap s) (jsToString level') = None then
        Threw (Error (''the level '' @ apostrophe @ jsToString level' @ apostrophe
                      @ '' does not exist'')) s
      else Returned This (s\<lparr>this_levelName := Some (jsToString level')\<rparr>))"

text \<open>The getter \<open>_level\<close>.\<close>

definition levelGetter :: "CatLoggr \<Rightarrow> member option" where
  "levelGetter s = levelMapGet (this_levelMap s) (propKey (this_levelName s))"

section \<open>Meta\<close>

text \<open>
  A destructured property with a default: the default stands in when the property
  is undefined.
\<close>

definition orDefault :: "jsobject \<Rightarrow> string \<Rightarrow> jsval \<Rightarrow> jsval" where
  "orDefault obj k d = (if getProp obj k = JUndefined then d else getProp obj k)"

text \<open>\<open>new LogMeta(meta)\<close>.\<close>

definition newLogMeta :: "jsobject \<Rightarrow> jsobject" where
  "newLogMeta m =
     [''depth'' \<mapsto> orDefault m ''depth'' (JNum 1),
      ''color'' \<mapsto> orDefault m ''color'' (JBool True),
      ''trace'' \<mapsto> orDefault m ''trace'' (JBool False),
      ''shardId'' \<mapsto> orDefault m ''shardId'' (JStr []),
      ''quote'' \<mapsto> orDefault m ''quote'' (JBool False)]"

text \<open>
  The properties the constructor of \<open>LogMeta\<close> can destructure; destructuring null
  throws.
\<close>

fun metaProps :: "metaArg \<Rightarrow> jsobject option" where
  "metaProps (MetaObject m) = Some m"
| "metaProps (MetaValue v) = (if nullish v then None else Some Map.empty)"

text \<open>\<open>setDefaultMeta(meta)\<close>.\<close>

definition setDefaultMeta :: "CatLoggr \<Rightarrow> metaArg \<Rightarrow> outcome" where
  "setDefaultMeta s m =
     (if typeofMeta m \<noteq> ''object'' then Threw (TypeError ''meta must be an object'') s
      else case metaProps m of
             None \<Rightarrow> Threw (TypeError ''Cannot destructure null'') s
           | Some props \<Rightarrow> Returned This (s\<lparr>this_defaultMeta := newLogMeta props\<rparr>))"

text \<open>\<open>meta(meta = {})\<close>: a fresh object receives the defaults, then the argument.\<close>

definition meta :: "CatLoggr \<Rightarrow> jsobject option \<Rightarrow> CatLoggr" where
  "meta s m =
     (let m' = (case m of None \<Rightarrow> Map.empty | Some x \<Rightarrow> x);
          temp = Map.empty;
          temp' = objectAssign (objectAssign temp (this_defaultMeta s)) m'
      in s\<lparr>this_meta := temp'\<rparr>)"

section \<open>Hooks\<close>



text \<open>
  The inner loop of \<open>_format\<close> over \<open>this._hooks.arg\<close>, from the hook of index \<open>i\<close>,
  for one argument. The result is the fragments pushed on \<open>text\<close> when a hook
  finished the argument (\<open>finished = true\<close>), and the hook calls made.
\<close>

fun argHookLoop ::
  "ArgHookCallback hookEntry list \<Rightarrow> nat \<Rightarrow> jsval \<Rightarrow> nat \<Rightarrow> jsval list option \<times> event list" where
  "argHookLoop [] i arg d = (None, [])"
| "argHookLoop (NotFunction # hooks) i arg d = argHookLoop hooks (Suc i) arg d"
| "argHookLoop (IsFunction hook # hooks) i arg d =
     (let res = hook arg d in
      if res = JUndefined \<or> res = JNull then
        (case argHookLoop hooks (Suc i) arg d of
           (r, evs) \<Rightarrow> (r, ArgHookCall i arg d # evs))
      else if arrayIsArray res then (Some (spread res), [ArgHookCall i arg d])
      else (Some [res], [ArgHookCall i arg d]))"

text \<open>
  The loop of \<open>_write\<close> over \<open>this._hooks.post\<close>: the text a hook put in place of
  the assembled one, if any, and the hook calls made.
\<close>

fun postHookLoop ::
  "PostHookCallback hookEntry list \<Rightarrow> nat \<Rightarrow> postParams \<Rightarrow> string option \<times> event list" where
  "postHookLoop [] i params = (None, [])"
| "postHookLoop (NotFunction # hooks) i params = postHookLoop hooks (Suc i) params"
| "postHookLoop (IsFunction hook # hooks) i params =
     (let res = hook params in
      if res = JUndefined \<or> res = JNull then
        (case postHookLoop hooks (Suc i) params of
           (r, evs) \<Rightarrow> (r, PostHookCall i params # evs))
      else (Some (jsToString res), [PostHookCall i params]))"

section \<open>Writing\<close>

text \<open>
  \<open>_centrePad(text, length)\<close>. With \<open>length\<close> undefined the comparison
  \<open>text.length < length\<close> is false. \<open>(d + 1) div 2\<close> is \<open>Math.ceil(d / 2)\<close>.
\<close>

definition centrePad :: "string \<Rightarrow> int option \<Rightarrow> string" where
  "centrePad text len =
     (case len of
        None \<Rightarrow> text
      | Some n \<Rightarrow>
          if int (length text) < n then
            replicate (nat ((n - int (length text)) div 2)) CHR '' ''
            @ text
            @ replicate (nat ((n - int (length text) + 1) div 2)) CHR '' ''
          else text)"

text \<open>
  The parts of \<open>_write(level, text, err = false, timestamp)\<close>: the level badge
  \<open>levelStr\<close>, the shard tag \<open>shardText\<close>, and the object passed to each post-hook.
\<close>

definition levelStr :: "env \<Rightarrow> CatLoggr \<Rightarrow> LogLevel \<Rightarrow> string" where
  "levelStr e s lvl = chalk e (color lvl) (centrePad (name lvl) (this_maxLength s))"

definition shardTag :: "CatLoggr \<Rightarrow> string" where
  "shardTag s =
     centrePad
       (if truthy (getProp (this_meta s) ''shardId'')
        then jsToString (getProp (this_meta s) ''shardId'')
        else jsToString (this_shard s))
       (this_shardLength s)"

definition shardText :: "env \<Rightarrow> CatLoggr \<Rightarrow> string" where
  "shardText e s =
     (if truthy (this_shard s) then chalk e [Black, Bold, BgYellow] (shardTag s) else [])"

definition hookParams :: "CatLoggr \<Rightarrow> LogLevel \<Rightarrow> string \<Rightarrow> timestampT \<Rightarrow> postParams" where
  "hookParams s lvl text timestamp =
     \<lparr>p_text = text,
      p_date = raw timestamp,
      p_timestamp = formattedRaw timestamp,
      p_shard = (if truthy (this_shard s) then Some (jsToString (this_shard s)) else None),
      p_level = name lvl,
      p_error = err lvl\<rparr>"

text \<open>
  \<open>_write\<close>: the post-hook loop, one \<open>stream.write\<close> of the line, the reset of
  \<open>_meta\<close>. It returns \<open>this\<close>.
\<close>

definition write_log ::
  "env \<Rightarrow> CatLoggr \<Rightarrow> LogLevel \<Rightarrow> string \<Rightarrow> bool \<Rightarrow> timestampT option \<Rightarrow> CatLoggr" where
  "write_log e s lvl text isErr timestamp0 =
     (let timestamp = (case timestamp0 of
                         None \<Rightarrow> timestampGetter e (momentInWrite e)
                       | Some t \<Rightarrow> t);
          strm = (if isErr then this_stderr s else this_stdout s)
      in case postHookLoop (this_hooks_post s) 0 (hookParams s lvl text timestamp) of
           (res, calls) \<Rightarrow>
             let text' = (case res of None \<Rightarrow> text | Some t \<Rightarrow> t) in
             s\<lparr>effects := effects s @ calls
                   @ [StreamWrite strm
                        (shardText e s @ formatted timestamp @ levelStr e s lvl
                         @ '' '' @ text' @ newline)],
               this_meta := Map.empty\<rparr>)"


section \<open>Formatting\<close>

text \<open>
  The number of matches of \<open>/%[sdifjoO]/g\<close> in a string, zero when \<open>match\<close> gives
  null.
\<close>

fun countFormats :: "string \<Rightarrow> nat" where
  "countFormats (c # d # cs) =
     (if c = CHR ''%'' \<and> d \<in> set ''sdifjoO'' then Suc (countFormats cs)
      else countFormats (d # cs))"
| "countFormats _ = 0"

text \<open>
  The first step of \<open>_format\<close>: a first argument that is a string with format
  specifiers takes as many of the following arguments as it has specifiers, through
  \<open>util.format\<close>.
\<close>

fun expandFormats :: "env \<Rightarrow> jsval list \<Rightarrow> jsval list" where
  "expandFormats e (JStr f # rest) =
     (if countFormats f = 0 then JStr f # rest
      else JStr (utilFormat e f (take (countFormats f) rest)) # drop (countFormats f) rest)"
| "expandFormats e args = args"

text \<open>
  The classification of one argument by \<open>typeof\<close>, reached when no arg-hook
  finished it: the fragments pushed on \<open>text\<close>.
\<close>

definition builtinFragments :: "env \<Rightarrow> jsobject \<Rightarrow> jsval \<Rightarrow> jsval list" where
  "builtinFragments e m arg =
     (if typeofJS arg = ''string'' then
        [JStr (chalk e [Magenta]
                (if truthy (getProp m ''quote'')
                 then apostrophe @ jsToString arg @ apostrophe
                 else jsToString arg))]
      else if typeofJS arg = ''number'' then [JStr (chalk e [Cyan] (jsToString arg))]
      else if typeofJS arg = ''object'' then
        [JStr newline,
         (case arg of
            JError msg st \<Rightarrow> JStr (chalk e [Red] st)
          | _ \<Rightarrow> JStr (utilInspect e arg m))]
      else [arg])"

text \<open>
  The loop \<open>for (const arg of args)\<close> of \<open>_format\<close>: the array \<open>text\<close> and the hook
  calls made.
\<close>

fun formatArgs ::
  "env \<Rightarrow> CatLoggr \<Rightarrow> timestampT \<Rightarrow> jsval list \<Rightarrow> jsval list \<times> event list" where
  "formatArgs e s timestamp [] = ([], [])"
| "formatArgs e s timestamp (arg # args) =
     (case argHookLoop (this_hooks_arg s) 0 arg (raw timestamp) of
        (res, calls) \<Rightarrow>
          (case formatArgs e s timestamp args of
             (text, calls') \<Rightarrow>
               ((case res of
                   Some fragments \<Rightarrow> fragments
                 | None \<Rightarrow> builtinFragments e (this_meta s) arg) @ text,
                calls @ calls')))"

text \<open>\<open>new Error().stack.split('\n').slice(1).join('\n')\<close>: the stack without its first line.\<close>

fun splitLines :: "string \<Rightarrow> string list" where
  "splitLines [] = [[]]"
| "splitLines (c # cs) =
     (if c = CHR 0x0A then [] # splitLines cs
      else (case splitLines cs of
              [] \<Rightarrow> [[c]]
            | l # ls \<Rightarrow> (c # l) # ls))"

definition stackTail :: "env \<Rightarrow> string" where
  "stackTail e = joinStrings newline (tl (splitLines (newErrorStack e)))"

text \<open>
  \<open>_format(level, ...args)\<close>. With \<open>this._level\<close> undefined the read of
  \<open>this._level.position\<close> throws. A comparison with an undefined position is false.
\<close>

fun greaterThan :: "nat option \<Rightarrow> nat option \<Rightarrow> bool" where
  "greaterThan (Some a) (Some b) = (a > b)"
| "greaterThan _ _ = False"

text \<open>
  The text \<open>_format\<close> hands to \<open>_write\<close>: the fragments joined by a space, the
  stack where the level or the meta asks for a trace, the whole in red for an error
  level.
\<close>

definition assemble :: "env \<Rightarrow> CatLoggr \<Rightarrow> LogLevel \<Rightarrow> jsval list \<Rightarrow> string" where
  "assemble e s lvl text =
     (let output = arrayJoin '' '' text;
          output1 = (if trace lvl \<or> truthy (getProp (this_meta s) ''trace'')
                     then output @ newline @ stackTail e else output)
      in if err lvl then chalk e [Red] output1 else output1)"

definition format :: "env \<Rightarrow> CatLoggr \<Rightarrow> LogLevel \<Rightarrow> jsval list \<Rightarrow> outcome" where
  "format e s lvl args =
     (let timestamp = timestampGetter e (momentInFormat e) in
      case levelGetter s of
        None \<Rightarrow> Threw (TypeError (cannotRead ''position'')) s
      | Some active \<Rightarrow>
          if greaterThan (position lvl) (memberPosition active) then Returned Undefined s
          else
            (case formatArgs e s timestamp (expandFormats e args) of
               (text, calls) \<Rightarrow>
                 let s' = s\<lparr>effects := effects s @ calls\<rparr> in
                 Returned This
                   (meta (write_log e s' lvl (assemble e s lvl text) (err lvl) None) None)))"

text \<open>
  A call \<open>logger[nm](...args)\<close> of a level function, bound under a level name or an
  alias.
\<close>

definition callLevel :: "env \<Rightarrow> CatLoggr \<Rightarrow> string \<Rightarrow> jsval list \<Rightarrow> outcome" where
  "callLevel e s nm args =
     (case this_bound s nm of
        None \<Rightarrow> Threw (TypeError (nm @ '' is not a function'')) s
      | Some l \<Rightarrow> format e s l args)"

section \<open>Construction\<close>

text \<open>The instance before the constructor has assigned anything.\<close>

definition blank :: CatLoggr where
  "blank =
     \<lparr>this_shard = JUndefined, this_shardLength = None, this_levelName = None,
      this_levels = [], this_levelMap = Map.empty, this_meta = Map.empty,
      this_defaultMeta = Map.empty, this_stdout = ProcessStdout, this_stderr = ProcessStderr,
      this_maxLength = None, this_hooks_arg = [], this_hooks_post = [],
      this_bound = Map.empty, effects = []\<rparr>"

text \<open>\<open>config.levels || CatLoggr.DefaultLevels\<close> and \<open>config.meta || {}\<close>.\<close>

fun levelsOrDefault :: "levelsArg option \<Rightarrow> levelsArg" where
  "levelsOrDefault None = LevelArr DefaultLevels"
| "levelsOrDefault (Some (LevelArr ls)) = LevelArr ls"
| "levelsOrDefault (Some (NonArray v)) = (if truthy v then NonArray v else LevelArr DefaultLevels)"

fun metaOrEmpty :: "metaArg option \<Rightarrow> metaArg" where
  "metaOrEmpty None = MetaObject Map.empty"
| "metaOrEmpty (Some (MetaObject m)) = MetaObject m"
| "metaOrEmpty (Some (MetaValue v)) = (if truthy v then MetaValue v else MetaObject Map.empty)"

text \<open>\<open>new CatLoggr(config)\<close>.\<close>

definition constructor :: "LoggrConfig option \<Rightarrow> outcome" where
  "constructor config0 =
     (let config = (case config0 of None \<Rightarrow> emptyConfig | Some c \<Rightarrow> c);
          s0 = (if truthy (config_shardId config)
                then blank\<lparr>this_shard := config_shardId config,
                           this_shardLength := config_shardLength config\<rparr>
                else blank);
          s1 = s0\<lparr>this_stdout := (case config_stdout config of None \<Rightarrow> ProcessStdout | Some x \<Rightarrow> x),
                  this_stderr := (case config_stderr config of None \<Rightarrow> ProcessStderr | Some x \<Rightarrow> x)\<rparr>
      in andThen (setLevels s1 (levelsOrDefault (config_levels config)))
           (\<lambda>s2. andThen
              (if truthy (config_level config) then setLevel s2 (config_level config)
               else (case lastElem (this_levels s2) of
                       None \<Rightarrow> Threw (TypeError (cannotRead ''name'')) s2
                     | Some l \<Rightarrow> setLevel s2 (JStr (name l))))
              (\<lambda>s3. andThen (setDefaultMeta s3 (metaOrEmpty (config_meta config)))
                 (\<lambda>s4. Returned This
                          (s4\<lparr>this_meta := Map.empty, this_hooks_arg := [], this_hooks_post := []\<rparr>)))))"

text \<open>The state in which a call leaves the object, whether it returned or threw.\<close>

fun stateOf :: "outcome \<Rightarrow> CatLoggr" where
  "stateOf (Returned _ s) = s"
| "stateOf (Threw _ s) = s"

text \<open>
  An environment for evaluating calls: a terminal without colour support, where
  chalk returns its text unchanged, a \<open>util.format\<close> and a \<open>util.inspect\<close> that
  stand for the library's, a fixed clock and stack. The \<open>util.format\<close> puts the
  string of each argument in the place of a specifier.
\<close>

fun substituteSpecifiers :: "string \<Rightarrow> jsval list \<Rightarrow> string" where
  "substituteSpecifiers (c # d # cs) (a # as) =
     (if c = CHR ''%'' \<and> d \<in> set ''sdifjoO'' then jsToString a @ substituteSpecifiers cs as
      else c # substituteSpecifiers (d # cs) (a # as))"
| "substituteSpecifiers cs as = cs"

definition plainEnv :: env where
  "plainEnv =
     \<lparr>chalk = (\<lambda>styles text. text),
      utilFormat = substituteSpecifiers,
      utilInspect = (\<lambda>v opts. jsToString v),
      momentInFormat = \<lparr>toDate = 0, formatMMDD = ''01/01 00:00:00''\<rparr>,
      momentInWrite = \<lparr>toDate = 0, formatMMDD = ''01/01 00:00:00''\<rparr>,
      newErrorStack = ''Error''\<rparr>"

section \<open>The JavaScript class: meta objects by reference\<close>

text \<open>
  The source holds a second class \<open>CatLoggr\<close>, in JavaScript, with the same
  methods. Its \<open>meta()\<close> binds \<open>temp\<close> to the stored default object itself, so what
  it does depends on which fields share an object: its objects live in a store and
  \<open>_defaultMeta\<close> and \<open>_meta\<close> are addresses. Only the meta fields of that class
  are modelled.
\<close>

record CatLoggrJS =
  js_objects :: "nat \<Rightarrow> jsobject"
  js_fresh :: nat
  js_defaultMeta :: nat
  js_meta :: nat

text \<open>An object literal: a new address holding the given properties.\<close>

definition newObjectJS :: "CatLoggrJS \<Rightarrow> jsobject \<Rightarrow> nat \<times> CatLoggrJS" where
  "newObjectJS s props =
     (js_fresh s, s\<lparr>js_objects := (js_objects s)(js_fresh s := props), js_fresh := Suc (js_fresh s)\<rparr>)"

text \<open>\<open>Object.assign(target, src)\<close> on an object of the store.\<close>

definition objectAssignJS :: "CatLoggrJS \<Rightarrow> nat \<Rightarrow> jsobject \<Rightarrow> CatLoggrJS" where
  "objectAssignJS s target src =
     s\<lparr>js_objects := (js_objects s)(target := objectAssign (js_objects s target) src)\<rparr>"

text \<open>\<open>setDefaultMeta(meta)\<close> of the JavaScript class, for an object argument.\<close>

definition setDefaultMetaJS :: "CatLoggrJS \<Rightarrow> jsobject \<Rightarrow> CatLoggrJS" where
  "setDefaultMetaJS s m =
     (case newObjectJS s [''depth'' \<mapsto> JNum 1, ''color'' \<mapsto> JBool True, ''trace'' \<mapsto> JBool False] of
        (temp, s1) \<Rightarrow> (objectAssignJS s1 temp m)\<lparr>js_defaultMeta := temp\<rparr>)"

text \<open>\<open>meta(meta = {})\<close> of the JavaScript class.\<close>

definition metaJS :: "CatLoggrJS \<Rightarrow> jsobject option \<Rightarrow> CatLoggrJS" where
  "metaJS s m =
     (let m' = (case m of None \<Rightarrow> Map.empty | Some x \<Rightarrow> x);
          temp = js_defaultMeta s
      in (objectAssignJS s temp m')\<lparr>js_meta := temp\<rparr>)"

text \<open>
  The end of the constructor of the JavaScript class:
  \<open>this.setDefaultMeta(meta || {}); this._meta = {}\<close>.
\<close>

definition blankJS :: CatLoggrJS where
  "blankJS = \<lparr>js_objects = (\<lambda>a. Map.empty), js_fresh = 0, js_defaultMeta = 0, js_meta = 0\<rparr>"

definition constructorJS :: "jsobject option \<Rightarrow> CatLoggrJS" where
  "constructorJS m =
     (let s1 = setDefaultMetaJS blankJS (case m of None \<Rightarrow> Map.empty | Some x \<Rightarrow> x)
      in case newObjectJS s1 Map.empty of (a, s2) \<Rightarrow> s2\<lparr>js_meta := a\<rparr>)"

text \<open>
  What a completed level call of the JavaScript class does to the meta fields:
  its \<open>_write\<close> leaves them, and \<open>_format\<close> ends with \<open>.meta()\<close>.
\<close>

definition completedCallJS :: "CatLoggrJS \<Rightarrow> CatLoggrJS" where
  "completedCallJS s = metaJS s None"

text \<open>The stored default object and the pending one.\<close>

definition storedDefaultJS :: "CatLoggrJS \<Rightarrow> jsobject" where
  "storedDefaultJS s = js_objects s (js_defaultMeta s)"

definition pendingJS :: "CatLoggrJS \<Rightarrow> jsobject" where
  "pendingJS s = js_objects s (js_meta s)"

text \<open>
  The constructor of the JavaScript class on the shard options, giving \<open>_shard\<close>
  and \<open>_shardLength\<close>: \<open>shardLength\<close> has the parameter default 4, and a number
  below 10 is prefixed with \<open>'0'\<close>. Its \<open>_write\<close> pads \<open>_shard.toString()\<close> to
  \<open>_shardLength\<close>.
\<close>

definition constructorShardJS :: "jsval \<Rightarrow> int option \<Rightarrow> jsval \<times> int option" where
  "constructorShardJS shardId shardLength0 =
     (let shardLength = (case shardLength0 of None \<Rightarrow> 4 | Some n \<Rightarrow> n) in
      if truthy shardId then
        (case shardId of
           JNum n \<Rightarrow> (if n < 10 then JStr (''0'' @ jsToString shardId) else shardId,
                      Some shardLength)
         | _ \<Rightarrow> (shardId, Some shardLength))
      else (JUndefined, None))"

definition shardTagJS :: "jsval \<times> int option \<Rightarrow> string" where
  "shardTagJS shardFields = centrePad (jsToString (fst shardFields)) (snd shardFields)"

section \<open>Loggers used in the examples\<close>

text \<open>
  An environment with colours, for the expectation of the test suite: each style
  of a chain opens with its escape sequence and closes with the matching one.
\<close>

fun ansiCodes :: "chalkStyle \<Rightarrow> string \<times> string" where
  "ansiCodes Black = (''30'', ''39'')"
| "ansiCodes Red = (''31'', ''39'')"
| "ansiCodes Green = (''32'', ''39'')"
| "ansiCodes Magenta = (''35'', ''39'')"
| "ansiCodes Cyan = (''36'', ''39'')"
| "ansiCodes Bold = (''1'', ''22'')"
| "ansiCodes BgBlack = (''40'', ''49'')"
| "ansiCodes BgRed = (''41'', ''49'')"
| "ansiCodes BgGreen = (''42'', ''49'')"
| "ansiCodes BgYellow = (''43'', ''49'')"
| "ansiCodes BgBlue = (''44'', ''49'')"
| "ansiCodes BgCyan = (''46'', ''49'')"
| "ansiCodes BgWhite = (''47'', ''49'')"

definition escape :: "string \<Rightarrow> string" where
  "escape code = CHR 0x1B # CHR ''['' # code @ ''m''"

fun chalkAnsi :: "chalkStyle list \<Rightarrow> string \<Rightarrow> string" where
  "chalkAnsi [] text = text"
| "chalkAnsi (st # sts) text =
     escape (fst (ansiCodes st)) @ chalkAnsi sts text @ escape (snd (ansiCodes st))"

definition ansiEnv :: env where
  "ansiEnv = plainEnv\<lparr>chalk := chalkAnsi\<rparr>"

text \<open>\<open>new CatLoggr()\<close>, \<open>new CatLoggr({level: 'warn'})\<close>, \<open>new CatLoggr({shardId: 'a'})\<close>.\<close>

definition defaultLogger :: CatLoggr where
  "defaultLogger = stateOf (constructor None)"

definition warnLogger :: CatLoggr where
  "warnLogger = stateOf (constructor (Some (emptyConfig\<lparr>config_level := JStr ''warn''\<rparr>)))"

definition shardLogger :: CatLoggr where
  "shardLogger = stateOf (constructor (Some (emptyConfig\<lparr>config_shardId := JStr ''a''\<rparr>)))"

text \<open>The level object of \<open>debug\<close> as the default registry holds it.\<close>

definition debugLevel :: LogLevel where
  "debugLevel =
     (setAliases [''log'', ''dir''] (newLogLevel ''debug'' [Magenta, BgBlack]))\<lparr>position := Some 7\<rparr>"



definition toStringLogger :: CatLoggr where
  "toStringLogger = stateOf (setLevel defaultLogger (JStr ''toString''))"


section \<open>Evaluating the example loggers\<close>

lemmas constructor_defs =
  constructor_def emptyConfig_def blank_def setLevels_def DefaultLevels_def newLogLevel_def
  setError_def setTrace_def setAliases_def lastElem_def setLevel_def setDefaultMeta_def Let_def
  levelMapGet_def objectPrototypeKeys_def

lemma defaultLogger_hooks:
  "this_hooks_arg defaultLogger = []" "this_hooks_post defaultLogger = []"
  by (simp_all add: defaultLogger_def constructor_defs)

lemma defaultLogger_meta: "this_meta defaultLogger = Map.empty"
  by (simp add: defaultLogger_def constructor_defs)





lemma warnLogger_level:
  "levelGetter warnLogger =
     Some (OwnLevel ((setError (newLogLevel ''warn'' [Black, BgYellow]))\<lparr>position := Some 2\<rparr>))"
  by (simp add: warnLogger_def levelGetter_def constructor_defs)

lemma warnLogger_bound_info:
  "this_bound warnLogger ''info'' =
     Some ((newLogLevel ''info'' [Black, BgGreen])\<lparr>position := Some 5\<rparr>)"
  by (simp add: warnLogger_def constructor_defs)


section \<open>What a level call does\<close>








text \<open>The early return of \<open>_format\<close>: nothing changes, and undefined is returned.\<close>

lemma format_filtered:
  "levelGetter s = Some active \<Longrightarrow> greaterThan (position lvl) (memberPosition active) \<Longrightarrow>
   format e s lvl args = Returned Undefined s"
  by (simp add: format_def)






text \<open>
  A filtered call, in full: it returns undefined, not the logger, and the object is
  the one it was.
\<close>

lemma filtered_call_keeps_state:
  assumes "this_bound s nm = Some lvl" and "levelGetter s = Some active"
      and "greaterThan (position lvl) (memberPosition active)"
  shows "callLevel e s nm args = Returned Undefined s"
  using assms by (simp add: callLevel_def format_filtered)

text \<open>
  Claim C2. With the default levels and the threshold \<open>warn\<close>, the filtered call
  \<open>logger.info('x')\<close> leaves the whole object unchanged, its events included, and
  returns undefined where the claim has it return the logger.
\<close>

theorem filtered_call_returns_undefined:
  "callLevel plainEnv warnLogger ''info'' [JStr ''x''] = Returned Undefined warnLogger"
  using filtered_call_keeps_state[OF warnLogger_bound_info warnLogger_level, of plainEnv "[JStr ''x'']"]
  by (simp add: setError_def newLogLevel_def)

section \<open>The registry and the threshold\<close>

lemma mapLevels_levelMap_dom:
  "dom (this_levelMap (fst (snd (mapLevels ls i s mx)))) = dom (this_levelMap s) \<union> name ` set ls"
  by (induction ls arbitrary: i s mx) (auto simp: Let_def split_beta)

lemma mapLevels_names: "map name (fst (mapLevels ls i s mx)) = map name ls"
  by (induction ls arbitrary: i s mx) (auto simp: Let_def split_beta)

lemma mapLevels_length: "length (fst (mapLevels ls i s mx)) = length ls"
  using mapLevels_names[of ls i s mx] by (metis length_map)

lemma setLevels_levelMap:
  "setLevels s0 (LevelArr ls) = Returned r s \<Longrightarrow>
   this_levelMap s =
     this_levelMap
       (fst (snd (mapLevels ls 0 (s0\<lparr>this_levelMap := Map.empty, this_levels := ls\<rparr>) 0)))"
  by (auto simp: setLevels_def Let_def split_beta split: if_splits option.splits)

lemma setLevels_levels:
  "setLevels s0 (LevelArr ls) = Returned r s \<Longrightarrow>
   this_levels s = fst (mapLevels ls 0 (s0\<lparr>this_levelMap := Map.empty, this_levels := ls\<rparr>) 0)"
  by (auto simp: setLevels_def Let_def split_beta split: if_splits option.splits)

text \<open>The keys of the name-to-level map are the names of the levels, no alias.\<close>

lemma setLevels_registry_keys:
  "setLevels s0 (LevelArr ls) = Returned r s \<Longrightarrow> dom (this_levelMap s) = name ` set ls"
  by (simp add: setLevels_levelMap mapLevels_levelMap_dom)

lemma setLevels_level_names:
  "setLevels s0 (LevelArr ls) = Returned r s \<Longrightarrow> map name (this_levels s) = map name ls"
  by (simp add: setLevels_levels mapLevels_names)

lemma setLevels_nonempty_returns:
  assumes "ls \<noteq> []"
  shows "\<exists>s. setLevels s0 (LevelArr ls) = Returned This s"
proof -
  have "fst (mapLevels ls 0 (s0\<lparr>this_levelMap := Map.empty, this_levels := ls\<rparr>) 0) \<noteq> []"
    using assms mapLevels_length[of ls 0 "s0\<lparr>this_levelMap := Map.empty, this_levels := ls\<rparr>" 0]
    by (metis length_0_conv)
  then show ?thesis
    by (simp add: setLevels_def Let_def split_beta lastElem_def)
qed

text \<open>
  Without a \<open>level\<close> option the constructor takes the name of the last level of the
  array as the threshold, whichever names the array holds.
\<close>

lemma constructor_threshold_is_last:
  assumes "\<not> truthy (config_level c)" and "config_levels c = Some (LevelArr ls)" and "ls \<noteq> []"
  shows "this_levelName (stateOf (constructor (Some c))) = Some (name (last ls))"
proof -
  let ?s1 = "(if truthy (config_shardId c)
                then blank\<lparr>this_shard := config_shardId c,
                           this_shardLength := config_shardLength c\<rparr>
                else blank)
             \<lparr>this_stdout := (case config_stdout c of None \<Rightarrow> ProcessStdout | Some x \<Rightarrow> x),
              this_stderr := (case config_stderr c of None \<Rightarrow> ProcessStderr | Some x \<Rightarrow> x)\<rparr>"
  from setLevels_nonempty_returns[OF assms(3)] obtain s2 where
    s2: "setLevels ?s1 (LevelArr ls) = Returned This s2" by blast
  have names: "map name (this_levels s2) = map name ls"
    using setLevels_level_names[OF s2] .
  then have ne: "this_levels s2 \<noteq> []" using assms(3) by auto
  have "name (last (this_levels s2)) = last (map name (this_levels s2))"
    using ne by (simp add: last_map)
  also have "\<dots> = name (last ls)" using names assms(3) by (simp add: last_map)
  finally have lastname: "name (last (this_levels s2)) = name (last ls)" .
  have "name (last ls) \<in> dom (this_levelMap s2)"
    using setLevels_registry_keys[OF s2] assms(3) by simp
  then have inmap: "levelMapGet (this_levelMap s2) (name (last ls)) \<noteq> None"
    by (auto simp: levelMapGet_def domIff)
  have sl: "setLevel s2 (JStr (name (last (this_levels s2)))) =
        Returned This (s2\<lparr>this_levelName := Some (name (last ls))\<rparr>)"
    using inmap lastname by (simp add: setLevel_def)
  show ?thesis
    using assms(1,2) s2 ne sl
    by (cases "setDefaultMeta (s2\<lparr>this_levelName := Some (name (last ls))\<rparr>)
                 (metaOrEmpty (config_meta c))")
       (auto simp: constructor_def Let_def lastElem_def setDefaultMeta_def
             split: if_splits option.splits)
qed

lemma defaultLogger_constructed: "constructor None = Returned This defaultLogger"
  by (simp add: defaultLogger_def constructor_defs)

text \<open>
  Claim C3. \<open>new CatLoggr()\<close>, with no level option and the default levels, which
  hold a level named \<open>info\<close>, has the threshold \<open>debug\<close>, the last level, where the
  claim has \<open>info\<close>.
\<close>

theorem default_threshold_is_last_level:
  "constructor None = Returned This defaultLogger
   \<and> this_levelName defaultLogger = Some ''debug''
   \<and> map name (this_levels defaultLogger) =
       [''fatal'', ''error'', ''warn'', ''trace'', ''init'', ''info'', ''verbose'', ''debug'']"
  by (simp add: defaultLogger_constructed) (simp add: defaultLogger_def constructor_defs)







text \<open>
  A string that names a member inherited from \<open>Object.prototype\<close> passes the test
  of \<open>setLevel\<close>, registered or not, and becomes the threshold name.
\<close>

lemma setLevel_inherited_member:
  "n \<in> set objectPrototypeKeys \<Longrightarrow>
   setLevel s (JStr n) = Returned This (s\<lparr>this_levelName := Some n\<rparr>)"
  by (simp add: setLevel_def levelMapGet_def split: option.splits)



section \<open>Errors of \<open>setLevels\<close>\<close>

text \<open>
  Claim C8. \<open>setLevels\<close> on an argument that is not an array throws the TypeError
  and leaves the whole object as it was: the level sequence, the name-to-level map,
  the threshold and the maximal label width among the rest.
\<close>

theorem setLevels_non_array_keeps_state:
  "setLevels s (NonArray v) = Threw (TypeError ''levels must be an array.'') s"
  by (simp add: setLevels_def)

lemma toStringLogger_eq: "toStringLogger = defaultLogger\<lparr>this_levelName := Some ''toString''\<rparr>"
  by (simp add: toStringLogger_def setLevel_inherited_member objectPrototypeKeys_def)

lemma defaultLogger_levelName: "this_levelName defaultLogger = Some ''debug''"
  by (simp add: defaultLogger_def constructor_defs)

text \<open>
  Claim C10, as stated, fails: \<open>setLevel('toString')\<close> returns on the default
  logger, the name being that of an inherited member, and \<open>setLevels([])\<close> on the
  logger it leaves throws nothing: it returns, with an empty map, an empty level
  sequence and the maximal width 2.
\<close>

theorem setLevels_empty_array_counterexample:
  "setLevel defaultLogger (JStr ''toString'') = Returned This toStringLogger
   \<and> setLevels toStringLogger (LevelArr []) =
       Returned This
         (toStringLogger\<lparr>this_levelMap := Map.empty, this_levels := [],
                         this_maxLength := Some 2\<rparr>)"
  by (simp add: toStringLogger_eq setLevel_inherited_member objectPrototypeKeys_def
                setLevels_def levelMapGet_def)

text \<open>
  Claim C10, amended. On a logger whose threshold name is not the name of a member
  inherited from \<open>Object.prototype\<close>, \<open>setLevels\<close> on the empty array throws a
  TypeError, and the object it leaves has an empty name-to-level map and an empty
  level sequence, the rest being as before. On every logger the call leaves the map
  and the level sequence empty.
\<close>

theorem setLevels_empty_array_clears_registry:
  "(propKey (this_levelName s) \<notin> set objectPrototypeKeys \<longrightarrow>
      (\<exists>msg. setLevels s (LevelArr []) =
              Threw (TypeError msg) (s\<lparr>this_levelMap := Map.empty, this_levels := []\<rparr>)))
   \<and> this_levelMap (stateOf (setLevels s (LevelArr []))) = Map.empty
   \<and> this_levels (stateOf (setLevels s (LevelArr []))) = []"
  by (simp add: setLevels_def lastElem_def levelMapGet_def)

text \<open>The default logger, whose threshold name is \<open>debug\<close>.\<close>

theorem setLevels_empty_array_clears_registry_witness:
  "(\<exists>msg. setLevels defaultLogger (LevelArr []) =
           Threw (TypeError msg) (defaultLogger\<lparr>this_levelMap := Map.empty, this_levels := []\<rparr>))
   \<and> this_levelMap (stateOf (setLevels defaultLogger (LevelArr []))) = Map.empty
   \<and> this_levels (stateOf (setLevels defaultLogger (LevelArr []))) = []"
proof -
  have h: "propKey (this_levelName defaultLogger) \<notin> set objectPrototypeKeys"
    by (simp add: defaultLogger_levelName objectPrototypeKeys_def)
  from setLevels_empty_array_clears_registry[of defaultLogger] h show ?thesis by blast
qed

section \<open>The hook chains\<close>

text \<open>
  The test of the repository on post-hooks: for \<open>log('a', 'b', 'c')\<close> on a new
  logger the text handed to the post-hooks is the three strings in magenta, joined
  by spaces.
\<close>

lemma test_post_hook_text:
  "assemble ansiEnv defaultLogger debugLevel
     (fst (formatArgs ansiEnv defaultLogger (timestampGetter ansiEnv (momentInFormat ansiEnv))
             (expandFormats ansiEnv [JStr ''a'', JStr ''b'', JStr ''c''])))
   = escape ''35'' @ ''a'' @ escape ''39'' @ '' ''
     @ escape ''35'' @ ''b'' @ escape ''39'' @ '' ''
     @ escape ''35'' @ ''c'' @ escape ''39''"
  by (simp add: assemble_def defaultLogger_hooks defaultLogger_meta builtinFragments_def
        arrayJoin_def nullish_def getProp_def ansiEnv_def plainEnv_def debugLevel_def
        setAliases_def newLogLevel_def)
















section \<open>The shard tag\<close>

lemma shardLogger_fields:
  "this_shard shardLogger = JStr ''a''" "this_shardLength shardLogger = None"
  "this_meta shardLogger = Map.empty" "this_hooks_arg shardLogger = []"
  "this_hooks_post shardLogger = []" "effects shardLogger = []"
  "this_stdout shardLogger = ProcessStdout" "this_maxLength shardLogger = Some 9"
  by (simp_all add: shardLogger_def constructor_defs)

lemma shardLogger_level:
  "levelGetter shardLogger =
     Some (OwnLevel ((setAliases [''log'', ''dir''] (newLogLevel ''debug'' [Magenta, BgBlack]))
                      \<lparr>position := Some 7\<rparr>))"
  by (simp add: shardLogger_def levelGetter_def constructor_defs)

lemma shardLogger_bound_log:
  "this_bound shardLogger ''log'' =
     Some ((setAliases [''log'', ''dir''] (newLogLevel ''debug'' [Magenta, BgBlack]))
             \<lparr>position := Some 7\<rparr>)"
  by (simp add: shardLogger_def constructor_defs)

text \<open>Padding to a given length does give that length to a shorter text.\<close>

lemma centrePad_width:
  "int (length text) < n \<Longrightarrow> int (length (centrePad text (Some n))) = n"
  by (simp add: centrePad_def)

text \<open>
  The JavaScript class, on the same option \<open>{shardId: 'a'}\<close>, pads the tag to
  the width 4.
\<close>

lemma shardTagJS_padded: "shardTagJS (constructorShardJS (JStr ''a'') None) = '' a  ''"
  by (simp add: shardTagJS_def constructorShardJS_def centrePad_def eval_nat_numeral)

text \<open>
  Claim C9. \<open>new CatLoggr({shardId: 'a'})\<close> has an undefined \<open>_shardLength\<close>, and
  the shard tag it renders before the timestamp is \<open>a\<close> alone, of width 1, where the
  claim has it padded to the width 4.
\<close>

theorem shard_tag_unpadded_without_shardLength:
  "this_shardLength shardLogger = None
   \<and> shardTag shardLogger = ''a''
   \<and> effects (stateOf (callLevel plainEnv shardLogger ''log'' [JStr ''x''])) =
       [StreamWrite ProcessStdout
          (''a'' @ '' 01/01 00:00:00 '' @ ''  debug  '' @ '' x'' @ newline)]"
  by (simp add: shardLogger_fields shardTag_def getProp_def centrePad_def callLevel_def
        shardLogger_bound_log format_def shardLogger_level setAliases_def newLogLevel_def Let_def
        timestampGetter_def plainEnv_def builtinFragments_def assemble_def arrayJoin_def
        nullish_def write_log_def hookParams_def shardText_def levelStr_def meta_def
        eval_nat_numeral)

section \<open>Default and pending meta\<close>

text \<open>
  The first class: \<open>meta()\<close> and a level call leave the stored default as it is,
  and a call that passes the threshold leaves a pending meta equal to the default.
\<close>

lemma meta_keeps_defaultMeta: "this_defaultMeta (meta s m) = this_defaultMeta s"
  by (simp add: meta_def Let_def)

lemma write_log_keeps_defaultMeta:
  "this_defaultMeta (write_log e s lvl text isErr ts0) = this_defaultMeta s"
  by (simp add: write_log_def Let_def split_beta)

lemma write_log_resets_meta: "this_meta (write_log e s lvl text isErr ts0) = Map.empty"
  by (simp add: write_log_def Let_def split_beta)

lemma format_keeps_defaultMeta:
  "this_defaultMeta (stateOf (format e s lvl args)) = this_defaultMeta s"
  by (simp add: format_def Let_def split_beta meta_keeps_defaultMeta write_log_keeps_defaultMeta
           split: option.splits)

lemma format_resets_meta:
  assumes "levelGetter s = Some active" "\<not> greaterThan (position lvl) (memberPosition active)"
  shows "this_meta (stateOf (format e s lvl args)) = this_defaultMeta s"
  using assms
  by (simp add: format_def Let_def split_beta meta_def objectAssign_def
                write_log_keeps_defaultMeta)

text \<open>
  The JavaScript class: \<open>meta(m)\<close> writes the properties of \<open>m\<close> into the stored
  default object, and the pending meta is that same object.
\<close>

lemma metaJS_writes_stored_default:
  "storedDefaultJS (metaJS s (Some m)) = storedDefaultJS s ++ m"
  by (simp add: metaJS_def storedDefaultJS_def objectAssignJS_def objectAssign_def Let_def)

lemma metaJS_pending_is_stored_default:
  "pendingJS (metaJS s m) = storedDefaultJS (metaJS s m)"
  by (simp add: metaJS_def storedDefaultJS_def pendingJS_def objectAssignJS_def Let_def)

text \<open>
  Claim C5. In the JavaScript class, after \<open>new CatLoggr()\<close> the stored default
  has the depth 1; after \<open>logger.meta({depth: 5})\<close> it has the depth 5, and so has
  the pending meta left by the level call that follows: the override of one call has
  changed the stored default, where the claim has it never changed.
\<close>

theorem meta_override_changes_stored_default_js:
  "getProp (storedDefaultJS (constructorJS None)) ''depth'' = JNum 1
   \<and> getProp (storedDefaultJS (metaJS (constructorJS None) (Some [''depth'' \<mapsto> JNum 5])))
        ''depth'' = JNum 5
   \<and> getProp (pendingJS (completedCallJS
                 (metaJS (constructorJS None) (Some [''depth'' \<mapsto> JNum 5]))))
        ''depth'' = JNum 5"
  by (simp add: constructorJS_def setDefaultMetaJS_def newObjectJS_def objectAssignJS_def
        objectAssign_def blankJS_def metaJS_def completedCallJS_def storedDefaultJS_def
        pendingJS_def getProp_def Let_def)

end
